theory Spec2Isabelle
  imports Main
begin

section \<open>Data model\<close>

text \<open>
  \<open>ProfileCreate\<close> is the request body (\<^verbatim>\<open>main.py\<close>, lines 45-53): \<open>first_name\<close> is a
  required \<^verbatim>\<open>str\<close>, every other field is \<^verbatim>\<open>Optional[str] = None\<close>, so a field left out of
  the JSON body arrives in the handler as \<open>None\<close>.

  \<open>Profile\<close> is a row of the table \<^verbatim>\<open>profiles\<close> (lines 70-81): the same eight text columns and
  the integer primary key. \<^verbatim>\<open>ProfileResponse\<close> (lines 55-67) has exactly the attributes of a
  row and is filled from it attribute by attribute (\<^verbatim>\<open>from_attributes = True\<close>), so a response
  body is written as the row itself. The primary key is called \<open>id'\<close> here, \<open>id\<close> being the
  identity function of HOL.
\<close>

record ProfileCreate =
  first_name :: string
  last_name :: "string option"
  gender :: "string option"
  country :: "string option"
  ethnicity :: "string option"
  marital_status :: "string option"
  date_of_birth :: "string option"
  autistic :: "string option"

record Profile = ProfileCreate +
  id' :: int

text \<open>
  The exceptions that travel through the handlers: the framework's \<^verbatim>\<open>HTTPException\<close> with its
  status code and detail; an error raised by the database layer, of which the handlers only
  ever read the text \<^verbatim>\<open>str(e)\<close>; and the \<^verbatim>\<open>OverflowError\<close> of the database driver for a
  Python integer that does not fit the engine's integers.
\<close>

datatype exn =
    HTTPException nat string
  | SQLAlchemyError string
  | OverflowError string

text \<open>Decimal digits of a status code, for \<^verbatim>\<open>str(e)\<close> below.\<close>

fun decimal :: "nat \<Rightarrow> string" where
  "decimal n =
     (if n < 10 then [''0123456789'' ! n]
      else decimal (n div 10) @ [''0123456789'' ! (n mod 10)])"

declare decimal.simps [simp del]

text \<open>
  \<^verbatim>\<open>str(e)\<close> (lines 122, 164, 182). For an error of the database layer or of its driver it
  is the error's own text. For the framework's \<^verbatim>\<open>HTTPException\<close> it is
  \<^verbatim>\<open>f"{status_code}: {detail}"\<close>, as the framework's class defines its \<^verbatim>\<open>__str__\<close>; no
  statement below depends on this text.
\<close>

fun str :: "exn \<Rightarrow> string" where
  "str (SQLAlchemyError t) = t"
| "str (OverflowError t) = t"
| "str (HTTPException c d) = decimal c @ '': '' @ d"


section \<open>The storage layer\<close>

text \<open>
  The table is the list of its rows in the order the engine returns them. A session
  (\<^verbatim>\<open>SessionLocal()\<close>, line 29: \<^verbatim>\<open>autocommit=False\<close>) is one transaction on it: \<open>table\<close> is what
  the engine holds durably, \<open>work\<close> is the transaction's own view, which \<open>db_commit\<close> makes
  durable and \<open>db_rollback\<close> throws away. Closing a session ends its transaction: what was not
  committed is dropped, and the durable table is what stays.
\<close>

record session =
  table :: "Profile list"
  work :: "Profile list"

definition SessionLocal :: "Profile list \<Rightarrow> session" where
  "SessionLocal store = \<lparr>table = store, work = store\<rparr>"

definition db_close :: "session \<Rightarrow> Profile list" where
  "db_close db = table db"

definition db_rollback :: "session \<Rightarrow> session" where
  "db_rollback db = db\<lparr>work := table db\<rparr>"

text \<open>
  Whether the engine fails is not decided by the program. A writing request comes with its
  \<open>fault\<close>: \<open>None\<close> when every call of its session goes through, \<open>Some (CommitFails t)\<close> when
  its \<^verbatim>\<open>db.commit()\<close> raises an error with text \<open>t\<close>, \<open>Some (RefreshFails t)\<close> when its commit
  goes through and the \<^verbatim>\<open>db.refresh(...)\<close> after it raises an error with text \<open>t\<close> (the
  connection is lost, the database file is locked by another writer).
\<close>

datatype failure =
    CommitFails string
  | RefreshFails string

text \<open>\<^verbatim>\<open>db.commit()\<close>. A failed commit writes nothing.\<close>

definition db_commit :: "failure option \<Rightarrow> session \<Rightarrow> exn + session" where
  "db_commit fault db =
     (case fault of
        Some (CommitFails t) \<Rightarrow> Inl (SQLAlchemyError t)
      | _ \<Rightarrow> Inr (db\<lparr>table := work db\<rparr>))"

text \<open>
  The key column holds signed 64-bit integers (SQLite, the default engine of line 16). A
  query parameter is a Python integer of any size, and the driver raises \<^verbatim>\<open>OverflowError\<close>
  when it binds one outside that range, before the statement runs.
\<close>

definition sqlite_integer :: "int \<Rightarrow> bool" where
  "sqlite_integer i = (- 9223372036854775808 \<le> i \<and> i \<le> 9223372036854775807)"

text \<open>
  \<^verbatim>\<open>db.query(Profile).filter(Profile.id == profile_id).first()\<close>. Keys are unbounded integers
  in this model, so a list of rows may hold a key the engine could not; a parameter that
  is the key of a row counts as one the engine can bind. On every table the engine can hold
  this is the check of the range followed by the search (\<open>query_first_bind\<close> below).
\<close>

definition query_first :: "session \<Rightarrow> int \<Rightarrow> exn + Profile option" where
  "query_first db profile_id =
     (if \<not> sqlite_integer profile_id \<and> profile_id \<notin> set (map id' (work db))
      then Inl (OverflowError ''Python int too large to convert to SQLite INTEGER'')
      else Inr (find (\<lambda>r. id' r = profile_id) (work db)))"

text \<open>\<^verbatim>\<open>db.query(Profile).all()\<close>.\<close>

definition query_all :: "session \<Rightarrow> Profile list" where
  "query_all db = work db"

text \<open>
  The key of a new row is chosen by the engine, never by the handlers. The column is an
  \<^verbatim>\<open>Integer\<close> primary key (line 73), for which the default engine takes 1 in an empty table
  and otherwise one more than the largest key in use. What the engine does once the largest
  key is the last 64-bit integer is not modelled.
\<close>

definition next_rowid :: "Profile list \<Rightarrow> int" where
  "next_rowid t = (if t = [] then 1 else Max (set (map id' t)) + 1)"

text \<open>
  \<^verbatim>\<open>Profile(first_name=profile.first_name, ...)\<close> followed by \<^verbatim>\<open>db.add(db_profile)\<close>
  (lines 104-115): the INSERT of the eight given values, after which the object carries the
  key the engine gave it. The statement is sent by the commit; no line reads the table in
  between, so the row enters the transaction's view here.
\<close>

definition db_add :: "session \<Rightarrow> ProfileCreate \<Rightarrow> Profile \<times> session" where
  "db_add db profile =
     (let db_profile =
            \<lparr>first_name = first_name profile,
             last_name = last_name profile,
             gender = gender profile,
             country = country profile,
             ethnicity = ethnicity profile,
             marital_status = marital_status profile,
             date_of_birth = date_of_birth profile,
             autistic = autistic profile,
             id' = next_rowid (work db)\<rparr>
      in (db_profile, db\<lparr>work := work db @ [db_profile]\<rparr>))"

text \<open>
  The loop \<^verbatim>\<open>for key, value in profile.dict().items(): setattr(db_profile, key, value)\<close>
  (lines 155-156). \<^verbatim>\<open>profile.dict()\<close> has all eight keys of \<open>ProfileCreate\<close>, the unset ones
  with their default \<open>None\<close>, and no key \<^verbatim>\<open>id\<close>. The changed object is written by
  \<^verbatim>\<open>UPDATE profiles SET ... WHERE id = ?\<close>.
\<close>

definition setattrs :: "Profile \<Rightarrow> ProfileCreate \<Rightarrow> Profile" where
  "setattrs db_profile profile =
     db_profile
       \<lparr>first_name := first_name profile,
        last_name := last_name profile,
        gender := gender profile,
        country := country profile,
        ethnicity := ethnicity profile,
        marital_status := marital_status profile,
        date_of_birth := date_of_birth profile,
        autistic := autistic profile\<rparr>"

definition db_update :: "session \<Rightarrow> Profile \<Rightarrow> session" where
  "db_update db db_profile =
     db\<lparr>work := map (\<lambda>r. if id' r = id' db_profile then db_profile else r) (work db)\<rparr>"

text \<open>\<^verbatim>\<open>db.delete(profile)\<close>: \<^verbatim>\<open>DELETE FROM profiles WHERE id = ?\<close>.\<close>

definition db_delete :: "session \<Rightarrow> Profile \<Rightarrow> session" where
  "db_delete db profile = db\<lparr>work := filter (\<lambda>r. id' r \<noteq> id' profile) (work db)\<rparr>"

text \<open>
  \<^verbatim>\<open>db.refresh(db_profile)\<close> reads the object's row again by its key. It raises when the
  engine fails at this call, and when the row is gone (the object's address in that message
  is left out).
\<close>

definition db_refresh :: "failure option \<Rightarrow> session \<Rightarrow> Profile \<Rightarrow> exn + Profile" where
  "db_refresh fault db db_profile =
     (case fault of
        Some (RefreshFails t) \<Rightarrow> Inl (SQLAlchemyError t)
      | _ \<Rightarrow>
          (case query_first db (id' db_profile) of
             Inl e \<Rightarrow> Inl e
           | Inr None \<Rightarrow> Inl (SQLAlchemyError ''Could not refresh instance'')
           | Inr (Some row) \<Rightarrow> Inr row))"


section \<open>Route handlers\<close>

text \<open>
  A handler takes the durable table and gives back its result together with the table it
  leaves: \<open>Inr\<close> a returned value, \<open>Inl\<close> the exception that leaves the handler. Each writing
  handler is written in two steps: its \<^verbatim>\<open>try\<close> statement with the \<^verbatim>\<open>except\<close> clause, which
  gives the result and the session as the \<^verbatim>\<open>finally\<close> clause finds it, and the handler
  itself, which opens the session and closes it in that \<^verbatim>\<open>finally\<close> clause.
\<close>

text \<open>
  The clause \<^verbatim>\<open>except Exception as e: db.rollback(); raise HTTPException(status_code=500,
  detail=str(e))\<close> of the three writing handlers.
\<close>

definition except_Exception :: "session \<Rightarrow> exn \<Rightarrow> (exn + 'a) \<times> session" where
  "except_Exception db e = (Inl (HTTPException 500 (str e)), db_rollback db)"

text \<open>\<^verbatim>\<open>read_root\<close> (lines 94-97); \<open>DATABASE_URL\<close> is the setting of line 16.\<close>

definition startswith :: "string \<Rightarrow> string \<Rightarrow> bool" where
  "startswith s p = (take (length p) s = p)"

definition read_root :: "string \<Rightarrow> (string \<times> string) list" where
  "read_root DATABASE_URL =
     (let db_type = (if startswith DATABASE_URL ''sqlite'' then ''SQLite'' else ''PostgreSQL'')
      in [(''message'', ''Lornexa Backend API''), (''status'', ''running''),
          (''database'', db_type)])"

text \<open>\<^verbatim>\<open>create_profile\<close> (lines 99-124): lines 102-122, then the whole handler.\<close>

definition create_profile_try ::
  "failure option \<Rightarrow> ProfileCreate \<Rightarrow> session \<Rightarrow> (exn + Profile) \<times> session" where
  "create_profile_try fault profile db =
     (let (db_profile, db1) = db_add db profile
      in case db_commit fault db1 of
           Inl e \<Rightarrow> except_Exception db1 e
         | Inr db2 \<Rightarrow>
             (case db_refresh fault db2 db_profile of
                Inl e \<Rightarrow> except_Exception db2 e
              | Inr row \<Rightarrow> (Inr row, db2)))"

definition create_profile ::
  "failure option \<Rightarrow> ProfileCreate \<Rightarrow> Profile list \<Rightarrow> (exn + Profile) \<times> Profile list" where
  "create_profile fault profile store =
     (let db = SessionLocal store;
          (result, db') = create_profile_try fault profile db
      in (result, db_close db'))"

text \<open>
  \<^verbatim>\<open>get_profile\<close> (lines 126-135): no \<^verbatim>\<open>except\<close> clause, so the 404, and an error of the
  query, leave the handler as they are.
\<close>

definition get_profile :: "int \<Rightarrow> Profile list \<Rightarrow> (exn + Profile) \<times> Profile list" where
  "get_profile profile_id store =
     (let db = SessionLocal store
      in case query_first db profile_id of
           Inl e \<Rightarrow> (Inl e, db_close db)
         | Inr None \<Rightarrow> (Inl (HTTPException 404 ''Profile not found''), db_close db)
         | Inr (Some profile) \<Rightarrow> (Inr profile, db_close db))"

text \<open>\<^verbatim>\<open>get_all_profiles\<close> (lines 137-144).\<close>

definition get_all_profiles :: "Profile list \<Rightarrow> Profile list \<times> Profile list" where
  "get_all_profiles store =
     (let db = SessionLocal store;
          profiles = query_all db
      in (profiles, db_close db))"

text \<open>
  \<^verbatim>\<open>update_profile\<close> (lines 146-166): lines 149-164, then the whole handler. The 404 of
  line 152 is raised inside the \<^verbatim>\<open>try\<close> block, and \<^verbatim>\<open>HTTPException\<close> is an \<^verbatim>\<open>Exception\<close>:
  the clause of line 162 catches it, as it catches an error of the query.
\<close>

definition update_profile_try ::
  "failure option \<Rightarrow> int \<Rightarrow> ProfileCreate \<Rightarrow> session \<Rightarrow> (exn + Profile) \<times> session" where
  "update_profile_try fault profile_id profile db =
     (case query_first db profile_id of
        Inl e \<Rightarrow> except_Exception db e
      | Inr None \<Rightarrow> except_Exception db (HTTPException 404 ''Profile not found'')
      | Inr (Some found) \<Rightarrow>
          (let db_profile = setattrs found profile;
               db1 = db_update db db_profile
           in case db_commit fault db1 of
                Inl e \<Rightarrow> except_Exception db1 e
              | Inr db2 \<Rightarrow>
                  (case db_refresh fault db2 db_profile of
                     Inl e \<Rightarrow> except_Exception db2 e
                   | Inr row \<Rightarrow> (Inr row, db2))))"

definition update_profile ::
  "failure option \<Rightarrow> int \<Rightarrow> ProfileCreate \<Rightarrow> Profile list \<Rightarrow> (exn + Profile) \<times> Profile list"
  where
  "update_profile fault profile_id profile store =
     (let db = SessionLocal store;
          (result, db') = update_profile_try fault profile_id profile db
      in (result, db_close db'))"

text \<open>
  \<^verbatim>\<open>delete_profile\<close> (lines 168-184): lines 171-182, then the whole handler, with the 404 of
  line 174 inside the \<^verbatim>\<open>try\<close> block as in \<open>update_profile\<close>. Nothing is refreshed here.
\<close>

definition delete_profile_try ::
  "failure option \<Rightarrow> int \<Rightarrow> session \<Rightarrow> (exn + (string \<times> string) list) \<times> session" where
  "delete_profile_try fault profile_id db =
     (case query_first db profile_id of
        Inl e \<Rightarrow> except_Exception db e
      | Inr None \<Rightarrow> except_Exception db (HTTPException 404 ''Profile not found'')
      | Inr (Some profile) \<Rightarrow>
          (let db1 = db_delete db profile
           in case db_commit fault db1 of
                Inl e \<Rightarrow> except_Exception db1 e
              | Inr db2 \<Rightarrow> (Inr [(''message'', ''Profile deleted successfully'')], db2)))"

definition delete_profile ::
  "failure option \<Rightarrow> int \<Rightarrow> Profile list \<Rightarrow> (exn + (string \<times> string) list) \<times> Profile list"
  where
  "delete_profile fault profile_id store =
     (let db = SessionLocal store;
          (result, db') = delete_profile_try fault profile_id db
      in (result, db_close db'))"

section \<open>The HTTP surface\<close>

text \<open>
  The six routes declared by the decorators of lines 94, 99, 126, 137, 146 and 168, and what a
  client receives. No decorator passes \<^verbatim>\<open>status_code\<close>, so a value returned by a handler is
  sent with the framework's default status 200; an \<^verbatim>\<open>HTTPException\<close> is sent with its own
  status code and its detail; any other exception leaving a handler is the framework's
  500 response.
\<close>

datatype request =
    GET_root
  | POST_profiles ProfileCreate
  | GET_profile int
  | GET_profiles
  | PUT_profile int ProfileCreate
  | DELETE_profile int

datatype content =
    Row Profile
  | Rows "Profile list"
  | Dict "(string \<times> string) list"
  | Detail string

fun respond :: "('a \<Rightarrow> content) \<Rightarrow> exn + 'a \<Rightarrow> nat \<times> content" where
  "respond body (Inr v) = (200, body v)"
| "respond body (Inl (HTTPException c d)) = (c, Detail d)"
| "respond body (Inl (SQLAlchemyError t)) = (500, Detail ''Internal Server Error'')"
| "respond body (Inl (OverflowError t)) = (500, Detail ''Internal Server Error'')"

fun app ::
  "string \<Rightarrow> failure option \<Rightarrow> request \<Rightarrow> Profile list \<Rightarrow> (nat \<times> content) \<times> Profile list"
  where
  "app DATABASE_URL fault GET_root store = (respond Dict (Inr (read_root DATABASE_URL)), store)"
| "app DATABASE_URL fault (POST_profiles profile) store =
     (let (result, store') = create_profile fault profile store in (respond Row result, store'))"
| "app DATABASE_URL fault (GET_profile profile_id) store =
     (let (result, store') = get_profile profile_id store in (respond Row result, store'))"
| "app DATABASE_URL fault GET_profiles store =
     (let (profiles, store') = get_all_profiles store in (respond Rows (Inr profiles), store'))"
| "app DATABASE_URL fault (PUT_profile profile_id profile) store =
     (let (result, store') = update_profile fault profile_id profile store
      in (respond Row result, store'))"
| "app DATABASE_URL fault (DELETE_profile profile_id) store =
     (let (result, store') = delete_profile fault profile_id store
      in (respond Dict result, store'))"

text \<open>
  Requests served one after the other, each with its own fault; the table one
  request leaves is the table the next one finds.
\<close>

fun serve ::
  "string \<Rightarrow> (failure option \<times> request) list \<Rightarrow> Profile list
     \<Rightarrow> (nat \<times> content) list \<times> Profile list"
  where
  "serve DATABASE_URL [] store = ([], store)"
| "serve DATABASE_URL ((fault, req) # rest) store =
     (let (response, store1) = app DATABASE_URL fault req store;
          (responses, store2) = serve DATABASE_URL rest store1
      in (response # responses, store2))"

text \<open>
  The payload \<open>profile\<close> "merged with" the key \<open>i\<close>, in the words of the specification: the row
  whose eight text fields are those of the payload.
\<close>

definition with_id :: "ProfileCreate \<Rightarrow> int \<Rightarrow> Profile" where
  "with_id profile i =
     \<lparr>first_name = first_name profile,
      last_name = last_name profile,
      gender = gender profile,
      country = country profile,
      ethnicity = ethnicity profile,
      marital_status = marital_status profile,
      date_of_birth = date_of_birth profile,
      autistic = autistic profile,
      id' = i\<rparr>"


section \<open>Sample data\<close>

text \<open>
  The payloads of the specification's example, \<^verbatim>\<open>{"first_name": "Ana"}\<close> and
  \<^verbatim>\<open>{"first_name": "Ana", "country": "PT"}\<close>, a stored row with a last name, and the default
  connection string of line 16, for the concrete instances below.
\<close>

definition ana :: ProfileCreate where
  "ana = \<lparr>first_name = ''Ana'', last_name = None, gender = None, country = None,
          ethnicity = None, marital_status = None, date_of_birth = None, autistic = None\<rparr>"

definition ana_pt :: ProfileCreate where
  "ana_pt = ana\<lparr>country := Some ''PT''\<rparr>"

definition ana_silva :: Profile where
  "ana_silva = (with_id ana 1)\<lparr>last_name := Some ''Silva''\<rparr>"


definition sqlite_url :: string where
  "sqlite_url = ''sqlite:///./lornexa.db''"

text \<open>The payloads \<open>ps\<close> as rows with the consecutive keys \<open>k\<close>, \<open>k + 1\<close>, ...\<close>

fun numbered :: "int \<Rightarrow> ProfileCreate list \<Rightarrow> Profile list" where
  "numbered k [] = []"
| "numbered k (p # ps) = with_id p k # numbered (k + 1) ps"




section \<open>Facts about the storage layer\<close>

lemma next_rowid_fresh: "next_rowid t \<notin> id' ` set t"
proof
  assume a: "next_rowid t \<in> id' ` set t"
  then have ne: "t \<noteq> []" by auto
  from a have "next_rowid t \<le> Max (id' ` set t)" by (intro Max_ge) auto
  with ne show False by (simp add: next_rowid_def)
qed

lemma next_rowid_append:
  "next_rowid (t @ [with_id p (next_rowid t)]) = next_rowid t + 1"
proof (cases "t = []")
  case True
  then show ?thesis by (simp add: next_rowid_def with_id_def)
next
  case False
  then have "Max (insert (Max (id' ` set t) + 1) (id' ` set t)) = Max (id' ` set t) + 1"
    by (subst Max_insert) auto
  with False show ?thesis by (simp add: next_rowid_def with_id_def)
qed

lemma find_id_None:
  "profile_id \<notin> id' ` set t \<Longrightarrow> find (\<lambda>r. id' r = profile_id) t = None"
  by (induction t) auto

lemma find_id_Some:
  "profile_id \<in> id' ` set t \<Longrightarrow>
     \<exists>r. find (\<lambda>r. id' r = profile_id) t = Some r \<and> id' r = profile_id \<and> r \<in> set t"
  by (induction t) auto

lemma find_append_fresh:
  "k \<notin> id' ` set t \<Longrightarrow> id' r = k \<Longrightarrow> find (\<lambda>x. id' x = k) (t @ [r]) = Some r"
  by (induction t) auto

lemma find_map_update:
  "id' x \<in> id' ` set t \<Longrightarrow>
     find (\<lambda>r. id' r = id' x) (map (\<lambda>r. if id' r = id' x then x else r) t) = Some x"
  by (induction t) auto

lemma id'_with_id [simp]: "id' (with_id p i) = i"
  by (simp add: with_id_def)

lemma setattrs_with_id: "setattrs r p = with_id p (id' r)"
  by (simp add: setattrs_def with_id_def)

lemma length_numbered: "length (numbered k ps) = length ps"
  by (induction ps arbitrary: k) auto

lemma nth_numbered: "j < length ps \<Longrightarrow> numbered k ps ! j = with_id (ps ! j) (k + int j)"
proof (induction ps arbitrary: k j)
  case Nil
  then show ?case by simp
next
  case (Cons p ps)
  show ?case
  proof (cases j)
    case 0
    then show ?thesis by simp
  next
    case (Suc i)
    with Cons.prems have "i < length ps" by simp
    have "k + 1 + int i = k + int (Suc i)" by simp
    with Cons.IH [OF \<open>i < length ps\<close>, of "k + 1"] Suc show ?thesis by simp
  qed
qed

text \<open>The query by key: a key with a row, a key in range without one, a key out of range.\<close>

lemma query_first_member:
  "profile_id \<in> id' ` set (work db) \<Longrightarrow>
     query_first db profile_id = Inr (find (\<lambda>r. id' r = profile_id) (work db))"
  by (simp add: query_first_def)

lemma query_first_missing:
  "profile_id \<notin> id' ` set (work db) \<Longrightarrow> sqlite_integer profile_id \<Longrightarrow>
     query_first db profile_id = Inr None"
  by (simp add: query_first_def find_id_None)

lemma query_first_overflow:
  "profile_id \<notin> id' ` set (work db) \<Longrightarrow> \<not> sqlite_integer profile_id \<Longrightarrow>
     query_first db profile_id =
       Inl (OverflowError ''Python int too large to convert to SQLite INTEGER'')"
  by (simp add: query_first_def)

text \<open>
  On a table whose keys are all 64-bit integers, as every table of the engine is, the query
  is the check of the parameter followed by the search.
\<close>

lemma query_first_bind:
  assumes "\<forall>r \<in> set (work db). sqlite_integer (id' r)"
  shows "query_first db profile_id =
     (if sqlite_integer profile_id then Inr (find (\<lambda>r. id' r = profile_id) (work db))
      else Inl (OverflowError ''Python int too large to convert to SQLite INTEGER''))"
proof (cases "sqlite_integer profile_id")
  case True
  then show ?thesis by (simp add: query_first_def)
next
  case False
  with assms have "profile_id \<notin> id' ` set (work db)" by auto
  with False show ?thesis by (simp add: query_first_def)
qed


section \<open>What each handler returns and leaves\<close>

text \<open>
  One equation per path through a handler: nothing fails (\<open>None\<close>), the commit fails, the
  refresh fails; the key is in the table or not.
\<close>

lemma create_profile_try_None:
  "create_profile_try None profile (SessionLocal store) =
     (Inr (with_id profile (next_rowid store)),
      SessionLocal (store @ [with_id profile (next_rowid store)]))"
proof -
  let ?row = "with_id profile (next_rowid store)"
  have "find (\<lambda>x. id' x = next_rowid store) (store @ [?row]) = Some ?row"
    by (rule find_append_fresh) (simp_all add: next_rowid_fresh)
  then show ?thesis
    by (simp add: Let_def create_profile_try_def SessionLocal_def db_add_def db_commit_def
        db_refresh_def query_first_def with_id_def [symmetric])
qed

lemma create_profile_None:
  "create_profile None profile store =
     (Inr (with_id profile (next_rowid store)), store @ [with_id profile (next_rowid store)])"
  by (simp add: create_profile_def create_profile_try_None)
    (simp add: SessionLocal_def db_close_def)

lemma create_profile_try_CommitFails:
  "create_profile_try (Some (CommitFails t)) profile (SessionLocal store) =
     (Inl (HTTPException 500 t), SessionLocal store)"
  by (simp add: Let_def create_profile_try_def SessionLocal_def db_add_def db_commit_def
      except_Exception_def db_rollback_def)

lemma create_profile_CommitFails:
  "create_profile (Some (CommitFails t)) profile store = (Inl (HTTPException 500 t), store)"
  by (simp add: create_profile_def create_profile_try_CommitFails)
    (simp add: SessionLocal_def db_close_def)

lemma create_profile_RefreshFails:
  "create_profile (Some (RefreshFails t)) profile store =
     (Inl (HTTPException 500 t), store @ [with_id profile (next_rowid store)])"
  by (simp add: Let_def create_profile_def create_profile_try_def SessionLocal_def db_add_def
      db_commit_def db_refresh_def except_Exception_def db_rollback_def db_close_def
      with_id_def [symmetric])

lemma get_profile_found:
  "find (\<lambda>r. id' r = profile_id) store = Some row \<Longrightarrow>
     get_profile profile_id store = (Inr row, store)"
proof -
  assume f: "find (\<lambda>r. id' r = profile_id) store = Some row"
  then have "profile_id \<in> id' ` set store"
    by (auto simp add: find_Some_iff)
  with f show ?thesis
    by (simp add: get_profile_def SessionLocal_def query_first_def db_close_def)
qed

lemma get_profile_missing:
  "sqlite_integer profile_id \<Longrightarrow> profile_id \<notin> id' ` set store \<Longrightarrow>
     get_profile profile_id store = (Inl (HTTPException 404 ''Profile not found''), store)"
  by (simp add: get_profile_def SessionLocal_def query_first_def db_close_def find_id_None)

lemma get_profile_store: "snd (get_profile profile_id store) = store"
  by (simp add: Let_def get_profile_def SessionLocal_def db_close_def
      split: sum.splits option.splits)

lemma get_all_profiles_eq: "get_all_profiles store = (store, store)"
  by (simp add: Let_def get_all_profiles_def SessionLocal_def query_all_def db_close_def)

text \<open>
  A key without a row: whatever the query raises or the handler raises for it, the clause of
  the handler turns it into a 500 and the table stays.
\<close>

lemma update_profile_try_missing:
  assumes "profile_id \<notin> id' ` set store"
  shows "\<exists>e. update_profile_try fault profile_id profile (SessionLocal store) =
       (Inl (HTTPException 500 (str e)), SessionLocal store)"
proof (cases "sqlite_integer profile_id")
  case True
  with assms have "update_profile_try fault profile_id profile (SessionLocal store) =
       (Inl (HTTPException 500 (str (HTTPException 404 ''Profile not found''))),
        SessionLocal store)"
    by (simp add: update_profile_try_def SessionLocal_def query_first_def find_id_None
        except_Exception_def db_rollback_def del: str.simps)
  then show ?thesis by blast
next
  case False
  with assms have "update_profile_try fault profile_id profile (SessionLocal store) =
       (Inl (HTTPException 500
          (str (OverflowError ''Python int too large to convert to SQLite INTEGER''))),
        SessionLocal store)"
    by (simp add: update_profile_try_def SessionLocal_def query_first_def
        except_Exception_def db_rollback_def del: str.simps)
  then show ?thesis by blast
qed

lemma update_profile_missing:
  assumes "profile_id \<notin> id' ` set store"
  shows "\<exists>e. update_profile fault profile_id profile store =
       (Inl (HTTPException 500 (str e)), store)"
proof -
  from update_profile_try_missing [OF assms] obtain e where
    "update_profile_try fault profile_id profile (SessionLocal store) =
       (Inl (HTTPException 500 (str e)), SessionLocal store)" by blast
  then have "update_profile fault profile_id profile store =
       (Inl (HTTPException 500 (str e)), store)"
    by (simp add: update_profile_def) (simp add: SessionLocal_def db_close_def)
  then show ?thesis by blast
qed

lemma update_mapped_find:
  assumes "profile_id \<in> id' ` set store"
  shows "find (\<lambda>r. id' r = profile_id)
          (map (\<lambda>r. if id' r = profile_id then with_id profile profile_id else r) store) =
        Some (with_id profile profile_id)"
proof -
  have "id' (with_id profile profile_id) \<in> id' ` set store" using assms by simp
  from find_map_update [OF this] show ?thesis by simp
qed

lemma update_mapped_member:
  assumes "profile_id \<in> id' ` set store"
  shows "profile_id \<in> id' `
     set (map (\<lambda>r. if id' r = profile_id then with_id profile profile_id else r) store)"
proof -
  from assms obtain r where r: "r \<in> set store" and i: "id' r = profile_id" by auto
  from r have "(if id' r = profile_id then with_id profile profile_id else r) \<in>
      set (map (\<lambda>r. if id' r = profile_id then with_id profile profile_id else r) store)"
    by simp
  with i have "with_id profile profile_id \<in>
      set (map (\<lambda>r. if id' r = profile_id then with_id profile profile_id else r) store)"
    by simp
  then have "id' (with_id profile profile_id) \<in> id' `
      set (map (\<lambda>r. if id' r = profile_id then with_id profile profile_id else r) store)"
    by (rule imageI)
  then show ?thesis by simp
qed

lemma update_profile_try_None:
  assumes "profile_id \<in> id' ` set store"
  shows "update_profile_try None profile_id profile (SessionLocal store) =
     (Inr (with_id profile profile_id),
      SessionLocal
        (map (\<lambda>r. if id' r = profile_id then with_id profile profile_id else r) store))"
proof -
  from find_id_Some [OF assms] obtain found where
    f: "find (\<lambda>r. id' r = profile_id) store = Some found" and i: "id' found = profile_id"
    by blast
  have q: "query_first (SessionLocal store) profile_id = Inr (Some found)"
    using assms f by (simp add: query_first_member SessionLocal_def)
  let ?t = "map (\<lambda>r. if id' r = profile_id then with_id profile profile_id else r) store"
  have q2: "query_first \<lparr>table = ?t, work = ?t\<rparr> profile_id =
              Inr (Some (with_id profile profile_id))"
    using update_mapped_member [OF assms, of profile] update_mapped_find [OF assms, of profile]
    by (simp add: query_first_member)
  from q q2 i show ?thesis
    by (simp add: Let_def update_profile_try_def setattrs_with_id db_update_def
        db_commit_def db_refresh_def SessionLocal_def)
qed

lemma update_profile_None:
  assumes "profile_id \<in> id' ` set store"
  shows "update_profile None profile_id profile store =
     (Inr (with_id profile profile_id),
      map (\<lambda>r. if id' r = profile_id then with_id profile profile_id else r) store)"
  by (simp add: update_profile_def update_profile_try_None [OF assms])
    (simp add: SessionLocal_def db_close_def)

lemma update_profile_try_CommitFails:
  assumes "profile_id \<in> id' ` set store"
  shows "update_profile_try (Some (CommitFails t)) profile_id profile (SessionLocal store) =
     (Inl (HTTPException 500 t), SessionLocal store)"
proof -
  from find_id_Some [OF assms] obtain found where
    f: "find (\<lambda>r. id' r = profile_id) store = Some found" by blast
  have q: "query_first (SessionLocal store) profile_id = Inr (Some found)"
    using assms f by (simp add: query_first_member SessionLocal_def)
  then show ?thesis
    by (simp add: Let_def update_profile_try_def db_update_def db_commit_def
        except_Exception_def db_rollback_def SessionLocal_def)
qed

lemma update_profile_CommitFails:
  assumes "profile_id \<in> id' ` set store"
  shows "update_profile (Some (CommitFails t)) profile_id profile store =
     (Inl (HTTPException 500 t), store)"
  by (simp add: update_profile_def update_profile_try_CommitFails [OF assms])
    (simp add: SessionLocal_def db_close_def)

lemma update_profile_RefreshFails:
  assumes "profile_id \<in> id' ` set store"
  shows "update_profile (Some (RefreshFails t)) profile_id profile store =
     (Inl (HTTPException 500 t),
      map (\<lambda>r. if id' r = profile_id then with_id profile profile_id else r) store)"
proof -
  from find_id_Some [OF assms] obtain found where
    f: "find (\<lambda>r. id' r = profile_id) store = Some found" and i: "id' found = profile_id"
    by blast
  have q: "query_first (SessionLocal store) profile_id = Inr (Some found)"
    using assms f by (simp add: query_first_member SessionLocal_def)
  with i show ?thesis
    by (simp add: Let_def update_profile_def update_profile_try_def setattrs_with_id
        db_update_def db_commit_def db_refresh_def except_Exception_def db_rollback_def
        db_close_def)
      (simp add: SessionLocal_def)
qed

lemma delete_profile_try_missing:
  assumes "profile_id \<notin> id' ` set store"
  shows "\<exists>e. delete_profile_try fault profile_id (SessionLocal store) =
       (Inl (HTTPException 500 (str e)), SessionLocal store)"
proof (cases "sqlite_integer profile_id")
  case True
  with assms have "delete_profile_try fault profile_id (SessionLocal store) =
       (Inl (HTTPException 500 (str (HTTPException 404 ''Profile not found''))),
        SessionLocal store)"
    by (simp add: delete_profile_try_def SessionLocal_def query_first_def find_id_None
        except_Exception_def db_rollback_def del: str.simps)
  then show ?thesis by blast
next
  case False
  with assms have "delete_profile_try fault profile_id (SessionLocal store) =
       (Inl (HTTPException 500
          (str (OverflowError ''Python int too large to convert to SQLite INTEGER''))),
        SessionLocal store)"
    by (simp add: delete_profile_try_def SessionLocal_def query_first_def
        except_Exception_def db_rollback_def del: str.simps)
  then show ?thesis by blast
qed

lemma delete_profile_missing:
  assumes "profile_id \<notin> id' ` set store"
  shows "\<exists>e. delete_profile fault profile_id store = (Inl (HTTPException 500 (str e)), store)"
proof -
  from delete_profile_try_missing [OF assms] obtain e where
    "delete_profile_try fault profile_id (SessionLocal store) =
       (Inl (HTTPException 500 (str e)), SessionLocal store)" by blast
  then have "delete_profile fault profile_id store = (Inl (HTTPException 500 (str e)), store)"
    by (simp add: delete_profile_def) (simp add: SessionLocal_def db_close_def)
  then show ?thesis by blast
qed

lemma delete_profile_try_CommitFails:
  assumes "profile_id \<in> id' ` set store"
  shows "delete_profile_try (Some (CommitFails t)) profile_id (SessionLocal store) =
     (Inl (HTTPException 500 t), SessionLocal store)"
proof -
  from find_id_Some [OF assms] obtain found where
    f: "find (\<lambda>r. id' r = profile_id) store = Some found" by blast
  have q: "query_first (SessionLocal store) profile_id = Inr (Some found)"
    using assms f by (simp add: query_first_member SessionLocal_def)
  then show ?thesis
    by (simp add: Let_def delete_profile_try_def db_delete_def db_commit_def
        except_Exception_def db_rollback_def SessionLocal_def)
qed

lemma delete_profile_CommitFails:
  assumes "profile_id \<in> id' ` set store"
  shows "delete_profile (Some (CommitFails t)) profile_id store =
     (Inl (HTTPException 500 t), store)"
  by (simp add: delete_profile_def delete_profile_try_CommitFails [OF assms])
    (simp add: SessionLocal_def db_close_def)

lemma delete_profile_committed:
  assumes "profile_id \<in> id' ` set store" and "\<forall>t. fault \<noteq> Some (CommitFails t)"
  shows "delete_profile fault profile_id store =
     (Inr [(''message'', ''Profile deleted successfully'')],
      filter (\<lambda>r. id' r \<noteq> profile_id) store)"
proof -
  from find_id_Some [OF assms(1)] obtain found where
    f: "find (\<lambda>r. id' r = profile_id) store = Some found" and i: "id' found = profile_id"
    by blast
  have q: "query_first (SessionLocal store) profile_id = Inr (Some found)"
    using assms(1) f by (simp add: query_first_member SessionLocal_def)
  have c: "db_commit fault db = Inr (db\<lparr>table := work db\<rparr>)" for db
    using assms(2) by (simp add: db_commit_def split: option.splits failure.splits)
  from q i show ?thesis
    by (simp add: Let_def delete_profile_def delete_profile_try_def db_delete_def c
        db_close_def)
      (simp add: SessionLocal_def)
qed

lemma delete_profile_None:
  assumes "profile_id \<in> id' ` set store"
  shows "delete_profile None profile_id store =
     (Inr [(''message'', ''Profile deleted successfully'')],
      filter (\<lambda>r. id' r \<noteq> profile_id) store)"
  by (rule delete_profile_committed [OF assms]) simp


lemma delete_profile_missing_404:
  "sqlite_integer profile_id \<Longrightarrow> profile_id \<notin> id' ` set store \<Longrightarrow>
     delete_profile fault profile_id store =
       (Inl (HTTPException 500 (str (HTTPException 404 ''Profile not found''))), store)"
  by (simp add: delete_profile_def delete_profile_try_def SessionLocal_def query_first_def
      find_id_None except_Exception_def db_rollback_def db_close_def del: str.simps)

lemma update_profile_missing_404:
  "sqlite_integer profile_id \<Longrightarrow> profile_id \<notin> id' ` set store \<Longrightarrow>
     update_profile fault profile_id profile store =
       (Inl (HTTPException 500 (str (HTTPException 404 ''Profile not found''))), store)"
  by (simp add: update_profile_def update_profile_try_def SessionLocal_def query_first_def
      find_id_None except_Exception_def db_rollback_def db_close_def del: str.simps)

text \<open>The table a writing handler leaves is the old one or the old one with its one change.\<close>

lemma create_profile_store:
  "snd (create_profile fault profile store) = store \<or>
   snd (create_profile fault profile store) = store @ [with_id profile (next_rowid store)]"
proof (cases fault)
  case None
  then show ?thesis by (simp add: create_profile_None)
next
  case (Some f)
  then show ?thesis
    by (cases f) (simp_all add: create_profile_CommitFails create_profile_RefreshFails)
qed

lemma update_profile_store:
  "snd (update_profile fault profile_id profile store) = store \<or>
   snd (update_profile fault profile_id profile store) =
     map (\<lambda>r. if id' r = profile_id then with_id profile profile_id else r) store"
proof (cases "profile_id \<in> id' ` set store")
  case True
  show ?thesis
  proof (cases fault)
    case None
    with True show ?thesis by (simp add: update_profile_None)
  next
    case (Some f)
    with True show ?thesis
      by (cases f) (simp_all add: update_profile_CommitFails update_profile_RefreshFails)
  qed
next
  case False
  from update_profile_missing [OF this, of fault profile] show ?thesis by auto
qed

lemma delete_profile_store:
  "snd (delete_profile fault profile_id store) = store \<or>
   snd (delete_profile fault profile_id store) = filter (\<lambda>r. id' r \<noteq> profile_id) store"
proof (cases "profile_id \<in> id' ` set store")
  case True
  show ?thesis
  proof (cases "\<exists>t. fault = Some (CommitFails t)")
    case True
    with \<open>profile_id \<in> id' ` set store\<close> show ?thesis
      by (auto simp add: delete_profile_CommitFails)
  next
    case False
    with \<open>profile_id \<in> id' ` set store\<close> show ?thesis
      by (simp add: delete_profile_committed)
  qed
next
  case False
  from delete_profile_missing [OF this, of fault] show ?thesis by auto
qed

lemma map_id'_update:
  "map id' (map (\<lambda>r. if id' r = profile_id then with_id profile profile_id else r) store) =
     map id' store"
  by (induction store) auto

text \<open>Consecutive creates that nothing fails, from any table.\<close>

lemma serve_creates:
  "serve url (map (\<lambda>p. (None, POST_profiles p)) ps) s =
     (map (\<lambda>r. (200, Row r)) (numbered (next_rowid s) ps), s @ numbered (next_rowid s) ps)"
proof (induction ps arbitrary: s)
  case Nil
  then show ?case by simp
next
  case (Cons p ps)
  show ?case
    by (simp add: create_profile_None Cons.IH next_rowid_append)
qed

text \<open>
  After a delete that nothing fails, the key is gone, whether it was there or not (for a
  key the engine can bind).
\<close>

lemma delete_then_get_not_found:
  assumes "sqlite_integer profile_id"
  shows "get_profile profile_id (snd (delete_profile None profile_id store)) =
     (Inl (HTTPException 404 ''Profile not found''), snd (delete_profile None profile_id store))"
proof (cases "profile_id \<in> id' ` set store")
  case True
  have "profile_id \<notin> id' ` set (filter (\<lambda>r. id' r \<noteq> profile_id) store)" by auto
  with True assms show ?thesis
    by (simp add: delete_profile_None get_profile_missing)
next
  case False
  from delete_profile_missing [OF this, of None] False assms show ?thesis
    by (auto simp add: get_profile_missing)
qed

section \<open>Properties of the service\<close>

text \<open>
  C1. For every key \<open>profile_id\<close> that has a row in the table and every payload \<open>profile\<close>,
  an update whose commit goes through returns the payload merged with the key, and the
  \<open>get_profile\<close> that follows returns exactly that row: every field the payload left out
  (\<open>None\<close>) reads back as \<open>None\<close>, whatever the row held before.
\<close>

theorem update_then_get:
  assumes "profile_id \<in> id' ` set store"
  shows "fst (update_profile None profile_id profile store) = Inr (with_id profile profile_id) \<and>
         get_profile profile_id (snd (update_profile None profile_id profile store)) =
           (Inr (with_id profile profile_id), snd (update_profile None profile_id profile store))"
proof -
  have "id' (with_id profile profile_id) \<in> id' ` set store" using assms by simp
  from find_map_update [OF this]
  have "find (\<lambda>r. id' r = profile_id)
          (map (\<lambda>r. if id' r = profile_id then with_id profile profile_id else r) store) =
        Some (with_id profile profile_id)" by simp
  then show ?thesis
    by (simp add: update_profile_None [OF assms] get_profile_found)
qed

theorem update_then_get_witness:
  "(1::int) \<in> id' ` set [ana_silva] \<and>
   last_name ana_silva = Some ''Silva'' \<and>
   fst (update_profile None 1 ana_pt [ana_silva]) =
     Inr \<lparr>first_name = ''Ana'', last_name = None, gender = None, country = Some ''PT'',
          ethnicity = None, marital_status = None, date_of_birth = None, autistic = None,
          id' = 1\<rparr> \<and>
   fst (get_profile 1 (snd (update_profile None 1 ana_pt [ana_silva]))) =
     Inr \<lparr>first_name = ''Ana'', last_name = None, gender = None, country = Some ''PT'',
          ethnicity = None, marital_status = None, date_of_birth = None, autistic = None,
          id' = 1\<rparr>"
  using update_then_get [of 1 "[ana_silva]" ana_pt]
  by (simp add: ana_silva_def ana_pt_def ana_def with_id_def)

text \<open>
  C2. A create whose payload sets only \<open>first_name\<close>, and whose commit goes through, returns a
  row whose key is the one the engine generates, a key no row of the table has, and in which
  every field other than the key and \<open>first_name\<close> is \<open>None\<close>; that row is added to the table.
\<close>

theorem create_first_name_only:
  "create_profile None
     \<lparr>first_name = n, last_name = None, gender = None, country = None, ethnicity = None,
      marital_status = None, date_of_birth = None, autistic = None\<rparr> store =
   (Inr \<lparr>first_name = n, last_name = None, gender = None, country = None, ethnicity = None,
         marital_status = None, date_of_birth = None, autistic = None,
         id' = next_rowid store\<rparr>,
    store @
      [\<lparr>first_name = n, last_name = None, gender = None, country = None, ethnicity = None,
        marital_status = None, date_of_birth = None, autistic = None,
        id' = next_rowid store\<rparr>]) \<and>
   next_rowid store \<notin> id' ` set store"
  by (simp add: create_profile_None next_rowid_fresh with_id_def)

theorem create_first_name_only_witness:
  "create_profile None ana [] =
   (Inr \<lparr>first_name = ''Ana'', last_name = None, gender = None, country = None,
         ethnicity = None, marital_status = None, date_of_birth = None, autistic = None,
         id' = 1\<rparr>,
    [\<lparr>first_name = ''Ana'', last_name = None, gender = None, country = None,
      ethnicity = None, marital_status = None, date_of_birth = None, autistic = None,
      id' = 1\<rparr>])"
  using create_first_name_only [of "''Ana''" "[]"]
  by (simp add: ana_def next_rowid_def)

text \<open>
  C3. For every row \<open>P\<close> that a create returns, the \<open>get_profile\<close> of its key on the table the
  create left returns \<open>P\<close>, and \<open>P\<close> is the payload with that key: every text field is stored
  as it was given.
\<close>

theorem create_then_get:
  assumes "create_profile fault profile store = (Inr P, store')"
  shows "get_profile (id' P) store' = (Inr P, store') \<and> P = with_id profile (id' P)"
proof (cases fault)
  case None
  with assms have P: "P = with_id profile (next_rowid store)"
    and s: "store' = store @ [P]"
    by (auto simp add: create_profile_None)
  from P have k: "id' P = next_rowid store" by simp
  have "find (\<lambda>x. id' x = id' P) (store @ [P]) = Some P"
    by (rule find_append_fresh) (simp_all add: k next_rowid_fresh)
  with s P show ?thesis by (simp add: get_profile_found)
next
  case (Some f)
  with assms show ?thesis
    by (cases f) (simp_all add: create_profile_CommitFails create_profile_RefreshFails)
qed

theorem create_then_get_witness:
  "create_profile None ana_pt [ana_silva] =
     (Inr (with_id ana_pt 2), [ana_silva, with_id ana_pt 2]) \<and>
   get_profile 2 [ana_silva, with_id ana_pt 2] =
     (Inr (with_id ana_pt 2), [ana_silva, with_id ana_pt 2])"
proof -
  have c: "create_profile None ana_pt [ana_silva] =
             (Inr (with_id ana_pt 2), [ana_silva, with_id ana_pt 2])"
    by (simp add: create_profile_None next_rowid_def ana_silva_def)
  from create_then_get [OF c] c show ?thesis by simp
qed




text \<open>
  C5. A delete of a key that has no row is to be answered 404. The handler raises that 404
  inside its \<^verbatim>\<open>try\<close> block, where its own \<^verbatim>\<open>except Exception\<close> clause catches it and raises
  a 500 in its place: after one create, the first delete of key 1 is answered 200, and the
  second delete of key 1 and a delete of the never created key 7 are both answered 500. The
  \<open>get_profile\<close> of the deleted key is answered 404.
\<close>

theorem delete_profile_twice:
  "map fst (fst (serve sqlite_url
      [(None, POST_profiles ana), (None, DELETE_profile 1), (None, DELETE_profile 1),
       (None, DELETE_profile 7), (None, GET_profile 1)] [])) =
   [200, 200, 500, 500, 404]"
  by (simp add: create_profile_None delete_profile_None delete_profile_missing_404
      get_profile_missing next_rowid_def sqlite_integer_def)

text \<open>
  C6, as stated: every writing operation is atomic, a failure leaving the stored state
  unchanged. It is not when what fails is the refresh that follows the commit (lines 117
  and 159, inside the same \<^verbatim>\<open>try\<close>): the commit has gone through, the rollback of the
  \<^verbatim>\<open>except\<close> clause has nothing left to undo, and the request is answered 500 with the row
  written.
\<close>

theorem refresh_failure_keeps_write:
  "create_profile (Some (RefreshFails ''database is locked'')) ana [] =
     (Inl (HTTPException 500 ''database is locked''), [with_id ana 1]) \<and>
   [with_id ana 1] \<noteq> [] \<and>
   update_profile (Some (RefreshFails ''database is locked'')) 1 ana_pt [ana_silva] =
     (Inl (HTTPException 500 ''database is locked''), [with_id ana_pt 1]) \<and>
   [with_id ana_pt 1] \<noteq> [ana_silva]"
proof -
  have m: "(1::int) \<in> id' ` set [ana_silva]" by (simp add: ana_silva_def)
  have i: "id' ana_silva = 1" by (simp add: ana_silva_def)
  have n: "with_id ana_pt 1 \<noteq> ana_silva"
    by (simp add: with_id_def ana_silva_def ana_pt_def ana_def)
  from m i n show ?thesis
    by (simp add: create_profile_RefreshFails update_profile_RefreshFails next_rowid_def)
qed

text \<open>
  C6, amended. When the commit of a writing handler raises an error with text \<open>t\<close>, the
  \<^verbatim>\<open>except\<close> clause rolls the transaction back, so that the session the \<^verbatim>\<open>finally\<close> clause
  closes has its view back at the durable table; the table is left as it was; and the
  handler fails with the 500 exception whose detail is \<open>t\<close> itself (for update and delete:
  when the key has a row, so that the commit is reached). A create or an update that fails
  otherwise than by the refresh after its commit leaves the table as it was, and so does a
  delete that fails, in every case.
\<close>

theorem commit_failure_rolls_back:
  "create_profile_try (Some (CommitFails t)) profile (SessionLocal store) =
     (Inl (HTTPException 500 t), SessionLocal store) \<and>
   create_profile (Some (CommitFails t)) profile store = (Inl (HTTPException 500 t), store) \<and>
   (profile_id \<in> id' ` set store \<longrightarrow>
      update_profile_try (Some (CommitFails t)) profile_id profile (SessionLocal store) =
        (Inl (HTTPException 500 t), SessionLocal store) \<and>
      update_profile (Some (CommitFails t)) profile_id profile store =
        (Inl (HTTPException 500 t), store) \<and>
      delete_profile_try (Some (CommitFails t)) profile_id (SessionLocal store) =
        (Inl (HTTPException 500 t), SessionLocal store) \<and>
      delete_profile (Some (CommitFails t)) profile_id store =
        (Inl (HTTPException 500 t), store)) \<and>
   ((\<forall>u. fault \<noteq> Some (RefreshFails u)) \<and>
    isl (fst (create_profile fault profile store)) \<longrightarrow>
      snd (create_profile fault profile store) = store) \<and>
   ((\<forall>u. fault \<noteq> Some (RefreshFails u)) \<and>
    isl (fst (update_profile fault profile_id profile store)) \<longrightarrow>
      snd (update_profile fault profile_id profile store) = store) \<and>
   (isl (fst (delete_profile fault profile_id store)) \<longrightarrow>
      snd (delete_profile fault profile_id store) = store)"
proof -
  have c: "(\<forall>u. fault \<noteq> Some (RefreshFails u)) \<and>
    isl (fst (create_profile fault profile store)) \<longrightarrow>
      snd (create_profile fault profile store) = store"
  proof (cases fault)
    case None
    then show ?thesis by (simp add: create_profile_None)
  next
    case (Some f)
    then show ?thesis by (cases f) (simp_all add: create_profile_CommitFails)
  qed
  have u: "(\<forall>u. fault \<noteq> Some (RefreshFails u)) \<and>
    isl (fst (update_profile fault profile_id profile store)) \<longrightarrow>
      snd (update_profile fault profile_id profile store) = store"
  proof (cases "profile_id \<in> id' ` set store")
    case True
    show ?thesis
    proof (cases fault)
      case None
      with True show ?thesis by (simp add: update_profile_None)
    next
      case (Some f)
      with True show ?thesis by (cases f) (simp_all add: update_profile_CommitFails)
    qed
  next
    case False
    from update_profile_missing [OF this, of fault profile] show ?thesis by auto
  qed
  have d: "isl (fst (delete_profile fault profile_id store)) \<longrightarrow>
      snd (delete_profile fault profile_id store) = store"
  proof (cases "profile_id \<in> id' ` set store")
    case True
    show ?thesis
    proof (cases "\<exists>t. fault = Some (CommitFails t)")
      case True
      with \<open>profile_id \<in> id' ` set store\<close> show ?thesis
        by (auto simp add: delete_profile_CommitFails)
    next
      case False
      with \<open>profile_id \<in> id' ` set store\<close> show ?thesis
        by (simp add: delete_profile_committed)
    qed
  next
    case False
    from delete_profile_missing [OF this, of fault] show ?thesis by auto
  qed
  from c u d show ?thesis
    by (simp add: create_profile_try_CommitFails create_profile_CommitFails
        update_profile_try_CommitFails update_profile_CommitFails
        delete_profile_try_CommitFails delete_profile_CommitFails)
qed

theorem commit_failure_rolls_back_witness:
  "(1::int) \<in> id' ` set [ana_silva] \<and>
   create_profile_try (Some (CommitFails ''disk full'')) ana_pt (SessionLocal [ana_silva]) =
     (Inl (HTTPException 500 ''disk full''), SessionLocal [ana_silva]) \<and>
   create_profile (Some (CommitFails ''disk full'')) ana_pt [ana_silva] =
     (Inl (HTTPException 500 ''disk full''), [ana_silva]) \<and>
   update_profile_try (Some (CommitFails ''disk full'')) 1 ana_pt (SessionLocal [ana_silva]) =
     (Inl (HTTPException 500 ''disk full''), SessionLocal [ana_silva]) \<and>
   update_profile (Some (CommitFails ''disk full'')) 1 ana_pt [ana_silva] =
     (Inl (HTTPException 500 ''disk full''), [ana_silva]) \<and>
   delete_profile_try (Some (CommitFails ''disk full'')) 1 (SessionLocal [ana_silva]) =
     (Inl (HTTPException 500 ''disk full''), SessionLocal [ana_silva]) \<and>
   delete_profile (Some (CommitFails ''disk full'')) 1 [ana_silva] =
     (Inl (HTTPException 500 ''disk full''), [ana_silva]) \<and>
   (\<forall>u. Some (CommitFails ''disk full'') \<noteq> Some (RefreshFails u)) \<and>
   isl (fst (create_profile (Some (CommitFails ''disk full'')) ana_pt [ana_silva])) \<and>
   snd (create_profile (Some (CommitFails ''disk full'')) ana_pt [ana_silva]) = [ana_silva] \<and>
   isl (fst (update_profile (Some (CommitFails ''disk full'')) 1 ana_pt [ana_silva])) \<and>
   snd (update_profile (Some (CommitFails ''disk full'')) 1 ana_pt [ana_silva]) = [ana_silva] \<and>
   isl (fst (delete_profile (Some (CommitFails ''disk full'')) 1 [ana_silva])) \<and>
   snd (delete_profile (Some (CommitFails ''disk full'')) 1 [ana_silva]) = [ana_silva]"
proof -
  have m: "(1::int) \<in> id' ` set [ana_silva]" by (simp add: ana_silva_def)
  from commit_failure_rolls_back
    [of "''disk full''" ana_pt "[ana_silva]" 1 "Some (CommitFails ''disk full'')"] m
  show ?thesis by simp
qed

text \<open>
  C7, as stated: a create that succeeds is answered with status 201. It is not: the create of
  \<^verbatim>\<open>{"first_name": "Ana"}\<close> in the empty table is answered with another status.
\<close>

theorem create_status_counterexample:
  "fst (fst (app sqlite_url None (POST_profiles ana) [])) \<noteq> 201"
  by (simp add: create_profile_None)

text \<open>
  C7, amended. A create whose commit goes through is answered with status 200, the framework's
  default, the route declaring no status code; the body is the full row, the payload with
  the generated key, a key no row of the table has.
\<close>

theorem create_status_200:
  "app DATABASE_URL None (POST_profiles profile) store =
     ((200, Row (with_id profile (next_rowid store))),
      store @ [with_id profile (next_rowid store)]) \<and>
   next_rowid store \<notin> id' ` set store"
  by (simp add: create_profile_None next_rowid_fresh)

theorem create_status_200_witness:
  "app sqlite_url None (POST_profiles ana) [] = ((200, Row (with_id ana 1)), [with_id ana 1])"
  using create_status_200 [of sqlite_url ana "[]"] by (simp add: next_rowid_def)

text \<open>
  C8. From the empty table, after the creates of the payloads \<open>ps\<close>, each with a commit that
  goes through, and nothing else, \<open>get_all_profiles\<close> returns the table, which has exactly as
  many rows as \<open>ps\<close> has payloads, the \<open>j\<close>-th (from 0) being the \<open>j\<close>-th payload with the key
  \<open>j + 1\<close>, which is also the row the \<open>j\<close>-th create was answered with (status 200).
\<close>

theorem get_all_after_creates:
  "fst (get_all_profiles (snd (serve url (map (\<lambda>p. (None, POST_profiles p)) ps) []))) =
     snd (serve url (map (\<lambda>p. (None, POST_profiles p)) ps) []) \<and>
   length (snd (serve url (map (\<lambda>p. (None, POST_profiles p)) ps) [])) = length ps \<and>
   (\<forall>j<length ps.
      snd (serve url (map (\<lambda>p. (None, POST_profiles p)) ps) []) ! j =
        with_id (ps ! j) (int j + 1) \<and>
      fst (serve url (map (\<lambda>p. (None, POST_profiles p)) ps) []) ! j =
        (200, Row (with_id (ps ! j) (int j + 1))))"
  by (simp add: serve_creates get_all_profiles_eq length_numbered nth_numbered
      next_rowid_def add.commute)

theorem get_all_after_creates_witness:
  "fst (get_all_profiles
          (snd (serve sqlite_url (map (\<lambda>p. (None, POST_profiles p)) [ana, ana_pt]) []))) =
     [with_id ana 1, with_id ana_pt 2] \<and>
   fst (serve sqlite_url (map (\<lambda>p. (None, POST_profiles p)) [ana, ana_pt]) []) =
     [(200, Row (with_id ana 1)), (200, Row (with_id ana_pt 2))]"
  using get_all_after_creates [of sqlite_url "[ana, ana_pt]"]
  by (simp add: create_profile_None get_all_profiles_eq next_rowid_def)

text \<open>
  C9. The key of a row is given at creation and no later operation changes it. An update,
  whatever its arguments and whatever its commit does, leaves the column of keys as it was,
  and every row it leaves is a row of before or the payload with the key it was called with.
  A create leaves the table as it was or adds one row, whose key no row had. A delete leaves
  the table as it was or takes out the rows of its key and leaves the others as they were.
  So keys that were pairwise different stay so. \<open>first_name\<close> is a string in every row, never
  \<open>None\<close>: the type of the field has no such value, and the first names in the table after a
  create or an update are those of before and that of the payload.
\<close>

theorem id_and_first_name_kept:
  "map id' (snd (update_profile fault profile_id profile store)) = map id' store \<and>
   (\<forall>r \<in> set (snd (update_profile fault profile_id profile store)).
      r \<in> set store \<or> r = with_id profile profile_id) \<and>
   (snd (create_profile fault profile store) = store \<or>
    snd (create_profile fault profile store) = store @ [with_id profile (next_rowid store)]) \<and>
   next_rowid store \<notin> id' ` set store \<and>
   (snd (delete_profile fault profile_id store) = store \<or>
    snd (delete_profile fault profile_id store) =
      filter (\<lambda>r. id' r \<noteq> profile_id) store) \<and>
   (distinct (map id' store) \<longrightarrow>
      distinct (map id' (snd (create_profile fault profile store))) \<and>
      distinct (map id' (snd (update_profile fault profile_id profile store))) \<and>
      distinct (map id' (snd (delete_profile fault profile_id store)))) \<and>
   first_name ` set (snd (create_profile fault profile store)) \<subseteq>
     insert (first_name profile) (first_name ` set store) \<and>
   first_name ` set (snd (update_profile fault profile_id profile store)) \<subseteq>
     insert (first_name profile) (first_name ` set store)"
proof -
  note c = create_profile_store [of fault profile store]
  note u = update_profile_store [of fault profile_id profile store]
  note d = delete_profile_store [of fault profile_id store]
  have fn: "first_name (with_id profile k) = first_name profile" for k
    by (simp add: with_id_def)
  have u1: "map id' (snd (update_profile fault profile_id profile store)) = map id' store"
    using u by (auto simp add: map_id'_update simp del: map_map)
  have u2: "\<forall>r \<in> set (snd (update_profile fault profile_id profile store)).
      r \<in> set store \<or> r = with_id profile profile_id"
    using u by auto
  have dc: "distinct (map id' store) \<longrightarrow>
      distinct (map id' (snd (create_profile fault profile store)))"
    using c next_rowid_fresh [of store] by auto
  have du: "distinct (map id' store) \<longrightarrow>
      distinct (map id' (snd (update_profile fault profile_id profile store)))"
    using u1 by simp
  have dd: "distinct (map id' store) \<longrightarrow>
      distinct (map id' (snd (delete_profile fault profile_id store)))"
    using d by (auto simp add: distinct_map_filter)
  have fc: "first_name ` set (snd (create_profile fault profile store)) \<subseteq>
     insert (first_name profile) (first_name ` set store)"
    using c by (auto simp add: fn)
  have fu: "first_name ` set (snd (update_profile fault profile_id profile store)) \<subseteq>
     insert (first_name profile) (first_name ` set store)"
    using u by (auto simp add: fn)
  from u1 u2 c d dc du dd fc fu next_rowid_fresh [of store] show ?thesis by blast
qed

theorem id_and_first_name_kept_witness:
  "distinct (map id' [ana_silva]) \<and>
   snd (update_profile None 1 ana_pt [ana_silva]) = [with_id ana_pt 1] \<and>
   map id' (snd (update_profile None 1 ana_pt [ana_silva])) = [1] \<and>
   snd (create_profile None ana_pt [ana_silva]) = [ana_silva, with_id ana_pt 2] \<and>
   distinct (map id' (snd (create_profile None ana_pt [ana_silva]))) \<and>
   snd (delete_profile None 1 [ana_silva]) = [] \<and>
   first_name (with_id ana_pt 1) = ''Ana''"
proof -
  have m: "(1::int) \<in> id' ` set [ana_silva]" by (simp add: ana_silva_def)
  have i: "id' ana_silva = 1" by (simp add: ana_silva_def)
  from id_and_first_name_kept [of None 1 ana_pt "[ana_silva]"] m i show ?thesis
    by (simp add: update_profile_None create_profile_None delete_profile_None next_rowid_def
        ana_pt_def ana_def with_id_def)
qed

text \<open>
  C10. The reading operations leave the table as it was: \<open>get_profile\<close>, whether it finds the
  row or fails with 404, \<open>get_all_profiles\<close>, and the three reading routes of the application,
  the root route among them, which opens no session at all.
\<close>

theorem reads_leave_store:
  "snd (get_profile profile_id store) = store \<and>
   snd (get_all_profiles store) = store \<and>
   snd (app DATABASE_URL fault (GET_profile profile_id) store) = store \<and>
   snd (app DATABASE_URL fault GET_profiles store) = store \<and>
   snd (app DATABASE_URL fault GET_root store) = store"
proof -
  have g: "snd (get_profile profile_id store) = store"
    by (rule get_profile_store)
  then show ?thesis
    by (simp add: get_all_profiles_eq split_beta)
qed

theorem reads_leave_store_witness:
  "snd (get_profile 1 [ana_silva]) = [ana_silva] \<and>
   snd (get_profile 7 [ana_silva]) = [ana_silva] \<and>
   snd (get_all_profiles [ana_silva]) = [ana_silva] \<and>
   snd (app sqlite_url None GET_root [ana_silva]) = [ana_silva]"
  using reads_leave_store [of 1 "[ana_silva]" sqlite_url None]
    reads_leave_store [of 7 "[ana_silva]" sqlite_url None]
  by simp

end
